theory Spec2Isabelle
  imports Complex_Main "HOL-Library.Word"
begin

section \<open>The field-data pipeline of \<open>field_data_processor.py\<close>\<close>

text \<open>
  The source is one Python class, \<open>FieldDataProcessor\<close>, whose methods call pandas on a
  table held in \<open>self.df\<close>. The embedding keeps the class as a record, each method as a
  function from the object to an outcome and the object it leaves behind, and each
  exception as a value.

  The pandas calls of the source are written out here as list functions, following the
  documented behaviour of \<open>DataFrame.rename\<close>, \<open>Series.abs\<close>, \<open>Series.apply\<close> and
  \<open>DataFrame.merge\<close>. A floating-point cell is given by its value: infinities and the
  sign of zero are left out. Also left out are the storage type pandas picks for a column
  after a join or an \<open>apply\<close> (cells keep their value) and the console logger, which
  never touches the table.
\<close>

subsection \<open>Data model\<close>

datatype error =
    KeyError string
  | IndexError
  | AttributeError
  | TypeError
  | ValueError
  | ExternalError string

text \<open>
  A cell of the table: an integer of 64 bits in two's complement (numpy \<open>int64\<close>), a
  finite floating-point number (\<open>float64\<close>) by its value, a string, the missing value
  \<open>NaN\<close> that a join fills in, or Python's \<open>None\<close> (an SQL \<open>NULL\<close> in a text column).
\<close>

datatype cell = I64 "64 word" | F64 real | Str string | NaN | NoneV

text \<open>
  A \<open>DataFrame\<close>: the ordered column labels and the rows in index order. Labels may
  repeat, as pandas allows. In a table read by pandas every row has one cell for each
  label (\<open>wf_frame\<close>). The index is the default one, row positions without a name, as
  \<open>read_sql_query\<close> and \<open>read_csv\<close> produce it.
\<close>

record frame =
  columns :: "string list"
  rows :: "cell list list"

definition wf_frame :: "frame \<Rightarrow> bool" where
  "wf_frame f = list_all (\<lambda>r. length r = length (columns f)) (rows f)"

text \<open>
  A value of the configuration dictionary. Python does not check the kind of a value when
  it is stored, only when it is used.
\<close>

datatype cfgval = CStr string | CDict "(string \<times> string) list"

text \<open>
  The object. \<open>config_params\<close> is the dictionary handed to the constructor, in insertion
  order; \<open>df\<close> and \<open>engine\<close> are \<open>None\<close> until ingestion.
\<close>

record 'e processor =
  config_params :: "(string \<times> cfgval) list"
  db_path :: cfgval
  sql_query :: cfgval
  columns_to_rename :: cfgval
  values_to_rename :: cfgval
  weather_map_data :: cfgval
  df :: "frame option"
  engine :: "'e option"

text \<open>
  The three functions imported from \<open>data_ingestion\<close> are not part of the source file:
  they are parameters of the model. Each either raises or returns its result.
\<close>

record 'e collaborators =
  create_db_engine :: "cfgval \<Rightarrow> error + 'e"
  query_data :: "'e \<Rightarrow> cfgval \<Rightarrow> error + frame"
  read_from_web_CSV :: "cfgval \<Rightarrow> error + frame"

text \<open>
  The outcome of a method call: \<open>None\<close> when it returns, \<open>Some e\<close> when it raises \<open>e\<close>,
  together with the object as the call leaves it.
\<close>

type_synonym 'e outcome = "error option \<times> 'e processor"

subsection \<open>The constructor\<close>

text \<open>\<open>d[k]\<close> on a dictionary: the value, or \<open>KeyError\<close>.\<close>

definition getitem :: "(string \<times> cfgval) list \<Rightarrow> string \<Rightarrow> error + cfgval" where
  "getitem d k = (case map_of d k of None \<Rightarrow> Inl (KeyError k) | Some v \<Rightarrow> Inr v)"

text \<open>
  \<open>__init__\<close> reads the five keys in the order of lines 15 to 19; the first missing one
  raises and the caller gets no object. Otherwise the object starts without a table and
  without an engine.
\<close>

definition init :: "(string \<times> cfgval) list \<Rightarrow> error + 'e processor" where
  "init cfg =
     (case getitem cfg ''db_path'' of Inl e \<Rightarrow> Inl e | Inr v1 \<Rightarrow>
      case getitem cfg ''sql_query'' of Inl e \<Rightarrow> Inl e | Inr v2 \<Rightarrow>
      case getitem cfg ''columns_to_rename'' of Inl e \<Rightarrow> Inl e | Inr v3 \<Rightarrow>
      case getitem cfg ''values_to_rename'' of Inl e \<Rightarrow> Inl e | Inr v4 \<Rightarrow>
      case getitem cfg ''weather_mapping_csv'' of Inl e \<Rightarrow> Inl e | Inr v5 \<Rightarrow>
      Inr \<lparr> config_params = cfg, db_path = v1, sql_query = v2,
            columns_to_rename = v3, values_to_rename = v4, weather_map_data = v5,
            df = None, engine = None \<rparr>)"

definition required_keys :: "string list" where
  "required_keys =
     [''db_path'', ''sql_query'', ''columns_to_rename'', ''values_to_rename'',
      ''weather_mapping_csv'']"

subsection \<open>Ingest\<close>

text \<open>
  \<open>ingest_sql_data\<close>: the engine is stored before the query runs, so a failing query
  leaves the engine on the object.
\<close>

definition ingest_sql_data :: "'e collaborators \<Rightarrow> 'e processor \<Rightarrow> 'e outcome" where
  "ingest_sql_data env p =
     (case create_db_engine env (db_path p) of
        Inl e \<Rightarrow> (Some e, p)
      | Inr eng \<Rightarrow>
          (let p1 = p\<lparr>engine := Some eng\<rparr> in
           case query_data env eng (sql_query p1) of
             Inl e \<Rightarrow> (Some e, p1)
           | Inr t \<Rightarrow> (None, p1\<lparr>df := Some t\<rparr>)))"

subsection \<open>Rename\<close>

text \<open>
  \<open>DataFrame.rename(columns=m)\<close>: every label that is a key of \<open>m\<close> is replaced, every
  other label stays, and a key that is no label is ignored (pandas' default
  \<open>errors='ignore'\<close>). The cells are not touched.
\<close>

definition rename :: "(string \<rightharpoonup> string) \<Rightarrow> frame \<Rightarrow> frame" where
  "rename m f = f\<lparr>columns := map (\<lambda>c. case m c of None \<Rightarrow> c | Some c' \<Rightarrow> c') (columns f)\<rparr>"

text \<open>The loop of lines 72 to 74: underscores are appended while the name is a label.\<close>

function temp_name :: "string list \<Rightarrow> string \<Rightarrow> string" where
  "temp_name cols t = (if t \<in> set cols then temp_name cols (t @ ''_'') else t)"
  by pat_completeness auto
termination
proof (relation "measure (\<lambda>(cols, t). length (filter (\<lambda>c. length t \<le> length c) cols))")
  show "wf (measure (\<lambda>(cols, t). length (filter (\<lambda>c. length t \<le> length c) cols)))"
    by simp
next
  fix cols :: "string list" and t :: string
  assume mem: "t \<in> set cols"
  have "length (filter (\<lambda>c. length (t @ ''_'') \<le> length c) cols)
        < length (filter (\<lambda>c. length t \<le> length c) cols)"
    using mem
  proof (induction cols)
    case Nil
    then show ?case by simp
  next
    case (Cons a cols)
    have le: "length (filter (\<lambda>c. length (t @ ''_'') \<le> length c) cols)
              \<le> length (filter (\<lambda>c. length t \<le> length c) cols)"
      by (induction cols) auto
    show ?case
    proof (cases "t \<in> set cols")
      case True
      with Cons.IH show ?thesis by auto
    next
      case False
      with Cons.prems have "a = t" by simp
      with le show ?thesis by simp
    qed
  qed
  then show "((cols, t @ ''_''), (cols, t))
             \<in> measure (\<lambda>(cols, t). length (filter (\<lambda>c. length t \<le> length c) cols))"
    by simp
qed

declare temp_name.simps [simp del]

text \<open>
  \<open>rename_columns\<close>. Line 70 takes the first key and the first value of the dictionary
  (\<open>IndexError\<close> when it is empty, \<open>AttributeError\<close> when the value is no dictionary);
  line 73 reads \<open>self.df.columns\<close> (\<open>AttributeError\<close> before ingestion). In the
  dictionary \<open>{column1: temp_name, column2: column1}\<close> the later entry wins when both
  keys are the same string.
\<close>

definition rename_columns :: "'e processor \<Rightarrow> 'e outcome" where
  "rename_columns p =
     (case columns_to_rename p of
        CStr _ \<Rightarrow> (Some AttributeError, p)
      | CDict [] \<Rightarrow> (Some IndexError, p)
      | CDict ((column1, column2) # _) \<Rightarrow>
          (case df p of
             None \<Rightarrow> (Some AttributeError, p)
           | Some t \<Rightarrow>
               (let tmp = temp_name (columns t) ''__temp_name_for_swap__'';
                    t1 = rename [column1 \<mapsto> tmp, column2 \<mapsto> column1] t;
                    t2 = rename [tmp \<mapsto> column2] t1
                in (None, p\<lparr>df := Some t2\<rparr>))))"

text \<open>Exchanging two labels, which is what the specification says the rename stage does.\<close>

definition swap_label :: "string \<Rightarrow> string \<Rightarrow> string \<Rightarrow> string" where
  "swap_label a b c = (if c = a then b else if c = b then a else c)"

subsection \<open>Correct\<close>

text \<open>
  pandas stores a column of integers as \<open>int64\<close> only when every cell is an integer; as
  soon as a number column has a missing value or a float it is a \<open>float64\<close> column, and
  an integer in it is held as the nearest float.
\<close>

fun is_I64 :: "cell \<Rightarrow> bool" where
  "is_I64 (I64 w) = True"
| "is_I64 c = False"

definition int64_column :: "nat \<Rightarrow> cell list list \<Rightarrow> bool" where
  "int64_column i rs = list_all (\<lambda>row. is_I64 (row ! i)) rs"

text \<open>
  The float nearest to an integer of 64 bits. A \<open>float64\<close> has 53 significant bits:
  the bits beyond them, at most eleven, are rounded off, a tie going to the even
  neighbour.
\<close>

definition excess_bits :: "nat \<Rightarrow> nat" where
  "excess_bits m = length (filter (\<lambda>j. 2 ^ j \<le> m) [53 ..< 64])"

definition f64_of_int :: "int \<Rightarrow> real" where
  "f64_of_int n =
     (let m = nat \<bar>n\<bar>;
          k = excess_bits m;
          q = m div 2 ^ k;
          r = m mod 2 ^ k;
          q' = (if 2 ^ k < 2 * r \<or> (2 * r = 2 ^ k \<and> odd q) then Suc q else q)
      in if n < 0 then - real (q' * 2 ^ k) else real (q' * 2 ^ k))"

text \<open>
  \<open>Series.abs\<close> on one cell; the flag says whether the cell's column is an \<open>int64\<close>
  column. There numpy negates a negative value in 64 bits, so the least value
  \<open>- 2 ^ 63\<close> wraps around to itself. In a \<open>float64\<close> column the absolute value is
  exact and \<open>NaN\<close> stays \<open>NaN\<close>. A string or \<open>None\<close> raises \<open>TypeError\<close>.
\<close>

fun abs_cell :: "bool \<Rightarrow> cell \<Rightarrow> error + cell" where
  "abs_cell int64 (I64 w) =
     (if int64 then Inr (I64 (if w <s 0 then - w else w))
      else Inr (F64 \<bar>f64_of_int (sint w)\<bar>))"
| "abs_cell int64 (F64 x) = Inr (F64 \<bar>x\<bar>)"
| "abs_cell int64 NaN = Inr NaN"
| "abs_cell int64 (Str s) = Inl TypeError"
| "abs_cell int64 NoneV = Inl TypeError"

text \<open>Running a function that may raise over a list: the first error ends the run.\<close>

fun traverse :: "('a \<Rightarrow> error + 'b) \<Rightarrow> 'a list \<Rightarrow> error + 'b list" where
  "traverse g [] = Inr []"
| "traverse g (x # xs) =
     (case g x of
        Inl e \<Rightarrow> Inl e
      | Inr y \<Rightarrow> (case traverse g xs of Inl e \<Rightarrow> Inl e | Inr ys \<Rightarrow> Inr (y # ys)))"

text \<open>
  One row of \<open>self.df[l].abs()\<close> written back: the absolute value in the cells under
  every column labelled \<open>l\<close>, each column by its own storage type; the other cells stay.
  \<open>rs\<close> are all the rows of the table and \<open>i\<close> is the position of the first label of
  the list.
\<close>

fun abs_row :: "string \<Rightarrow> cell list list \<Rightarrow> nat \<Rightarrow> string list \<Rightarrow> cell list \<Rightarrow> error + cell list" where
  "abs_row l rs i (c # cs) (x # xs) =
     (case (if c = l then abs_cell (int64_column i rs) x else Inr x) of
        Inl e \<Rightarrow> Inl e
      | Inr y \<Rightarrow> (case abs_row l rs (Suc i) cs xs of Inl e \<Rightarrow> Inl e | Inr ys \<Rightarrow> Inr (y # ys)))"
| "abs_row l rs i cs xs = Inr xs"

text \<open>One row with \<open>g\<close> applied to the cells under every column labelled \<open>l\<close>.\<close>

fun map_label :: "string \<Rightarrow> (cell \<Rightarrow> cell) \<Rightarrow> string list \<Rightarrow> cell list \<Rightarrow> cell list" where
  "map_label l g (c # cs) (x # xs) = (if c = l then g x else x) # map_label l g cs xs"
| "map_label l g cs xs = xs"

text \<open>
  The function handed to \<open>apply\<close> on line 91, \<open>values_to_rename.get(crop, crop)\<close>. The
  keys of the table are strings, so a cell that is no string is never a key.
\<close>

fun remap :: "(string \<times> string) list \<Rightarrow> cell \<Rightarrow> cell" where
  "remap m (Str s) = (case map_of m s of None \<Rightarrow> Str s | Some v \<Rightarrow> Str v)"
| "remap m c = c"

text \<open>
  \<open>apply_corrections\<close>. Line 90: \<open>self.df[abs_column]\<close> raises \<open>TypeError\<close> when there is
  no table and \<open>KeyError\<close> when the label is absent; the absolute values are written back
  under every column with that label. Line 91 then reads \<open>self.df[column_name]\<close> from the
  table line 90 has already changed. A table without rows never calls the function of
  line 91. With rows, the function first reads \<open>self.values_to_rename.get\<close>
  (\<open>AttributeError\<close> when the value is no dictionary). When the label names one column,
  \<open>apply\<close> calls the function once for each cell; when it names several,
  \<open>self.df[column_name]\<close> is a table and \<open>apply\<close> hands whole columns to the function,
  which cannot look up a column in a dictionary (\<open>TypeError\<close>).
\<close>

definition apply_corrections :: "'e processor \<Rightarrow> string \<Rightarrow> string \<Rightarrow> 'e outcome" where
  "apply_corrections p column_name abs_column =
     (case df p of
        None \<Rightarrow> (Some TypeError, p)
      | Some t \<Rightarrow>
          if abs_column \<notin> set (columns t) then (Some (KeyError abs_column), p)
          else
            (case traverse (abs_row abs_column (rows t) 0 (columns t)) (rows t) of
               Inl e \<Rightarrow> (Some e, p)
             | Inr rs \<Rightarrow>
                 (let t1 = t\<lparr>rows := rs\<rparr>; p1 = p\<lparr>df := Some t1\<rparr> in
                  if column_name \<notin> set (columns t1) then (Some (KeyError column_name), p1)
                  else if rs = [] then (None, p1)
                  else
                    (case values_to_rename p1 of
                       CStr _ \<Rightarrow> (Some AttributeError, p1)
                     | CDict m \<Rightarrow>
                         if 1 < count_list (columns t1) column_name then (Some TypeError, p1)
                         else
                           (None, p1\<lparr>df := Some (t1\<lparr>rows :=
                              map (map_label column_name (remap m) (columns t1)) rs\<rparr>)\<rparr>)))))"

subsection \<open>Enrich\<close>

text \<open>
  \<open>DataFrame.merge(right, on=key, how='left')\<close>. The key must be a label of both tables
  (\<open>KeyError\<close> otherwise; pandas looks at the right table first) and name one column in
  each (\<open>ValueError\<close> otherwise). Two key cells match when they are equal, a number
  matching by its value whether it is stored as an integer or as a float; missing keys
  match each other. Every left row comes out once for each matching right row, in the right
  table's order, followed by that row's cells without its key; a left row without a match
  comes out once, followed by \<open>NaN\<close>. A label other than the key that both tables carry
  gets the suffix \<open>_x\<close> on the left and \<open>_y\<close> on the right.

  Two later checks of pandas are not modelled: it refuses to join a key column of numbers
  with a key column of strings, and it refuses suffixes that would repeat a label. Where
  pandas raises for one of these, \<open>merge_left\<close> returns a table.
\<close>

fun pos :: "string \<Rightarrow> string list \<Rightarrow> nat" where
  "pos l [] = 0"
| "pos l (c # cs) = (if c = l then 0 else Suc (pos l cs))"

definition drop_at :: "nat \<Rightarrow> 'a list \<Rightarrow> 'a list" where
  "drop_at j xs = take j xs @ drop (Suc j) xs"

fun norm_key :: "cell \<Rightarrow> cell" where
  "norm_key NoneV = NaN"
| "norm_key (I64 w) = F64 (real_of_int (sint w))"
| "norm_key c = c"

definition keys_match :: "cell \<Rightarrow> cell \<Rightarrow> bool" where
  "keys_match a b = (norm_key a = norm_key b)"

definition matches :: "nat \<Rightarrow> nat \<Rightarrow> frame \<Rightarrow> cell list \<Rightarrow> cell list list" where
  "matches i j right lrow = filter (\<lambda>rrow. keys_match (lrow ! i) (rrow ! j)) (rows right)"

definition join_row :: "nat \<Rightarrow> nat \<Rightarrow> frame \<Rightarrow> cell list \<Rightarrow> cell list list" where
  "join_row i j right lrow =
     (case matches i j right lrow of
        [] \<Rightarrow> [lrow @ replicate (length (columns right) - 1) NaN]
      | ms \<Rightarrow> map (\<lambda>rrow. lrow @ drop_at j rrow) ms)"

definition merge_left :: "frame \<Rightarrow> frame \<Rightarrow> string \<Rightarrow> error + frame" where
  "merge_left left right key =
     (if key \<notin> set (columns right) then Inl (KeyError key)
      else if 1 < count_list (columns right) key then Inl ValueError
      else if key \<notin> set (columns left) then Inl (KeyError key)
      else if 1 < count_list (columns left) key then Inl ValueError
      else
        (let i = pos key (columns left);
             j = pos key (columns right);
             rcols = drop_at j (columns right);
             lcols = columns left
         in Inr \<lparr> columns =
                    map (\<lambda>c. if c \<in> set rcols then c @ ''_x'' else c) lcols @
                    map (\<lambda>c. if c \<in> set lcols then c @ ''_y'' else c) rcols,
                  rows = concat (map (join_row i j right) (rows left)) \<rparr>))"

text \<open>
  \<open>weather_station_mapping\<close>: the fetch comes first, then the rename in place (which
  stays on the object when the join fails), then the join.
\<close>

definition weather_station_mapping :: "'e collaborators \<Rightarrow> 'e processor \<Rightarrow> 'e outcome" where
  "weather_station_mapping env p =
     (case read_from_web_CSV env (weather_map_data p) of
        Inl e \<Rightarrow> (Some e, p)
      | Inr weather_mapping_df \<Rightarrow>
          (case df p of
             None \<Rightarrow> (Some AttributeError, p)
           | Some t \<Rightarrow>
               (let t1 = rename [''Weather_station_ID'' \<mapsto> ''Weather_station''] t;
                    p1 = p\<lparr>df := Some t1\<rparr>
                in case merge_left t1 weather_mapping_df ''Field_ID'' of
                     Inl e \<Rightarrow> (Some e, p1)
                   | Inr t2 \<Rightarrow> (None, p1\<lparr>df := Some t2\<rparr>))))"

subsection \<open>The pipeline\<close>

text \<open>One statement after another: an exception ends the method with the object as it is.\<close>

definition and_then :: "'e outcome \<Rightarrow> ('e processor \<Rightarrow> 'e outcome) \<Rightarrow> 'e outcome" where
  "and_then r g = (case r of (Some e, p) \<Rightarrow> (Some e, p) | (None, p) \<Rightarrow> g p)"

definition process :: "'e collaborators \<Rightarrow> 'e processor \<Rightarrow> 'e outcome" where
  "process env p =
     and_then
       (and_then
          (and_then (ingest_sql_data env p) rename_columns)
          (\<lambda>p. apply_corrections p ''Crop_type'' ''Elevation''))
       (weather_station_mapping env)"

subsection \<open>Sample inputs\<close>

text \<open>
  A small table, a configuration, the object the constructor builds from it and that
  object holding the table. The rename dictionary has a second entry, which line 70 never
  reads.
\<close>

definition ex_frame :: frame where
  "ex_frame = \<lparr> columns = [''Field_ID'', ''Crop_type'', ''Elevation''],
                 rows = [[I64 1, Str ''Corn'', I64 (- 5)], [I64 2, Str ''XYZ'', I64 10]] \<rparr>"

definition ex_config :: "(string \<times> cfgval) list" where
  "ex_config =
     [(''db_path'', CStr ''sqlite:///field.db''),
      (''sql_query'', CStr ''SELECT * FROM fields''),
      (''columns_to_rename'',
         CDict [(''Crop_type'', ''Elevation''), (''Field_ID'', ''Crop_type'')]),
      (''values_to_rename'', CDict [(''XYZ'', ''Wheat'')]),
      (''weather_mapping_csv'', CStr ''https://example.org/weather.csv'')]"

definition ex_fresh :: "unit processor" where
  "ex_fresh =
     \<lparr> config_params = ex_config,
       db_path = CStr ''sqlite:///field.db'',
       sql_query = CStr ''SELECT * FROM fields'',
       columns_to_rename =
         CDict [(''Crop_type'', ''Elevation''), (''Field_ID'', ''Crop_type'')],
       values_to_rename = CDict [(''XYZ'', ''Wheat'')],
       weather_map_data = CStr ''https://example.org/weather.csv'',
       df = None, engine = None \<rparr>"

definition ex_proc :: "unit processor" where
  "ex_proc = ex_fresh\<lparr>df := Some ex_frame\<rparr>"

text \<open>The same object with a table whose elevation is the least 64-bit integer.\<close>

definition ex_min_proc :: "unit processor" where
  "ex_min_proc =
     ex_proc\<lparr>df := Some \<lparr> columns = [''Crop_type'', ''Elevation''],
                            rows = [[Str ''Corn'', I64 (- 9223372036854775808)]] \<rparr>\<rparr>"

text \<open>
  A run of the whole pipeline. The query returns a table whose labels \<open>Crop_type\<close> and
  \<open>Elevation\<close> are exchanged, which is what the rename stage is there to repair; the
  weather table knows the fields 1 and 2 but not 3.
\<close>

definition ex_raw :: frame where
  "ex_raw = \<lparr> columns = [''Field_ID'', ''Elevation'', ''Crop_type'', ''Weather_station_ID''],
               rows = [[I64 1, Str ''Corn'', I64 (- 5), Str ''WS1''],
                       [I64 2, Str ''XYZ'', I64 10, Str ''WS2''],
                       [I64 3, Str ''Corn'', I64 (- 3), Str ''WS3'']] \<rparr>"

definition ex_weather :: frame where
  "ex_weather = \<lparr> columns = [''Field_ID'', ''Weather_station''],
                   rows = [[I64 1, Str ''Station-A''], [I64 2, Str ''Station-B'']] \<rparr>"

definition ex_env :: "unit collaborators" where
  "ex_env = \<lparr> create_db_engine = (\<lambda>_. Inr ()),
               query_data = (\<lambda>_ _. Inr ex_raw),
               read_from_web_CSV = (\<lambda>_. Inr ex_weather) \<rparr>"


definition ex_env_nokey :: "unit collaborators" where
  "ex_env_nokey =
     ex_env\<lparr>read_from_web_CSV := (\<lambda>_. Inr \<lparr> columns = [''Station'', ''Weather_station''],
                    rows = [[I64 1, Str ''Station-A'']] \<rparr>)\<rparr>"

text \<open>A configuration dictionary without the key \<open>sql_query\<close>.\<close>

definition ex_cfg :: "(string \<times> cfgval) list" where
  "ex_cfg = filter (\<lambda>(k, v). k \<noteq> ''sql_query'') ex_config"



section \<open>Properties\<close>

subsection \<open>Rename\<close>

text \<open>The placeholder that the loop returns is never a label of the table.\<close>

lemma temp_name_fresh: "temp_name cols t \<notin> set cols"
  by (induction cols t rule: temp_name.induct) (subst temp_name.simps, simp)

text \<open>
  The two renames of lines 76 and 77, label by label: together they exchange the two
  names, provided the first name is not the placeholder itself.
\<close>

lemma rename_twice_label:
  assumes "tmp \<notin> set cols" "c \<in> set cols" "a \<noteq> tmp"
  shows "(case [tmp \<mapsto> b] (case [a \<mapsto> tmp, b \<mapsto> a] c of None \<Rightarrow> c | Some c' \<Rightarrow> c') of
            None \<Rightarrow> (case [a \<mapsto> tmp, b \<mapsto> a] c of None \<Rightarrow> c | Some c' \<Rightarrow> c')
          | Some c' \<Rightarrow> c') = swap_label a b c"
  using assms by (auto simp: swap_label_def)

lemma rename_columns_labels:
  assumes "columns_to_rename p = CDict ((a, b) # rest)" "df p = Some t"
    and "a \<noteq> temp_name (columns t) ''__temp_name_for_swap__''"
  shows "rename_columns p = (None, p\<lparr>df := Some (t\<lparr>columns := map (swap_label a b) (columns t)\<rparr>)\<rparr>)"
proof -
  define tmp where "tmp = temp_name (columns t) ''__temp_name_for_swap__''"
  have fresh: "tmp \<notin> set (columns t)" unfolding tmp_def by (rule temp_name_fresh)
  have ne: "a \<noteq> tmp" using assms(3) by (simp add: tmp_def)
  have "map (\<lambda>c. case [tmp \<mapsto> b] c of None \<Rightarrow> c | Some c' \<Rightarrow> c')
          (map (\<lambda>c. case [a \<mapsto> tmp, b \<mapsto> a] c of None \<Rightarrow> c | Some c' \<Rightarrow> c') (columns t))
        = map (swap_label a b) (columns t)"
    unfolding map_map
  proof (rule map_cong [OF refl])
    fix c assume "c \<in> set (columns t)"
    from rename_twice_label [OF fresh this ne, of b]
    show "((\<lambda>c. case [tmp \<mapsto> b] c of None \<Rightarrow> c | Some c' \<Rightarrow> c') \<circ>
           (\<lambda>c. case [a \<mapsto> tmp, b \<mapsto> a] c of None \<Rightarrow> c | Some c' \<Rightarrow> c')) c = swap_label a b c"
      by (simp only: comp_def)
  qed
  then have "rename [tmp \<mapsto> b] (rename [a \<mapsto> tmp, b \<mapsto> a] t) = t\<lparr>columns := map (swap_label a b) (columns t)\<rparr>"
    by (simp add: rename_def)
  then show ?thesis using assms(1,2) by (simp add: rename_columns_def Let_def tmp_def)
qed

lemma swap_label_twice: "swap_label a b (swap_label a b c) = c"
  by (simp add: swap_label_def)

text \<open>
  Claim C4. In a table that has both configured labels \<open>a\<close> and \<open>b\<close>, the placeholder
  collides with no label, \<open>rename_columns\<close> returns normally, every column labelled \<open>a\<close>
  is labelled \<open>b\<close> afterwards and every column labelled \<open>b\<close> is labelled \<open>a\<close>, every
  other label is where it was, and the rows are untouched.
\<close>

theorem rename_columns_swap:
  assumes "columns_to_rename p = CDict ((a, b) # rest)" and "df p = Some t"
    and "a \<in> set (columns t)" and "b \<in> set (columns t)"
  shows "temp_name (columns t) ''__temp_name_for_swap__'' \<notin> set (columns t) \<and>
         (\<exists>t'. rename_columns p = (None, p\<lparr>df := Some t'\<rparr>) \<and> rows t' = rows t \<and>
               length (columns t') = length (columns t) \<and>
               (\<forall>i < length (columns t).
                  (columns t ! i = a \<longrightarrow> columns t' ! i = b) \<and>
                  (columns t ! i = b \<longrightarrow> columns t' ! i = a) \<and>
                  (columns t ! i \<noteq> a \<and> columns t ! i \<noteq> b \<longrightarrow> columns t' ! i = columns t ! i)))"
proof -
  have fresh: "temp_name (columns t) ''__temp_name_for_swap__'' \<notin> set (columns t)"
    by (rule temp_name_fresh)
  with assms(3) have ne: "a \<noteq> temp_name (columns t) ''__temp_name_for_swap__''" by auto
  let ?t' = "t\<lparr>columns := map (swap_label a b) (columns t)\<rparr>"
  have "rename_columns p = (None, p\<lparr>df := Some ?t'\<rparr>)"
    by (rule rename_columns_labels [OF assms(1,2) ne])
  moreover have "rows ?t' = rows t" "length (columns ?t') = length (columns t)" by simp_all
  moreover have "\<forall>i < length (columns t).
                  (columns t ! i = a \<longrightarrow> columns ?t' ! i = b) \<and>
                  (columns t ! i = b \<longrightarrow> columns ?t' ! i = a) \<and>
                  (columns t ! i \<noteq> a \<and> columns t ! i \<noteq> b \<longrightarrow> columns ?t' ! i = columns t ! i)"
    by (simp add: swap_label_def)
  ultimately show ?thesis using fresh by blast
qed


text \<open>The sample table has both \<open>Crop_type\<close> and \<open>Elevation\<close>; the call exchanges them.\<close>

theorem rename_columns_swap_witness:
  "columns_to_rename ex_proc =
     CDict [(''Crop_type'', ''Elevation''), (''Field_ID'', ''Crop_type'')] \<and>
   df ex_proc = Some ex_frame \<and>
   ''Crop_type'' \<in> set (columns ex_frame) \<and> ''Elevation'' \<in> set (columns ex_frame) \<and>
   (\<exists>t'. rename_columns ex_proc = (None, ex_proc\<lparr>df := Some t'\<rparr>) \<and>
         rows t' = rows ex_frame \<and>
         columns t' ! 0 = ''Field_ID'' \<and> columns t' ! 1 = ''Elevation'' \<and>
         columns t' ! 2 = ''Crop_type'')"
proof -
  have h1: "columns_to_rename ex_proc =
              CDict ((''Crop_type'', ''Elevation'') # [(''Field_ID'', ''Crop_type'')])"
    by (simp add: ex_proc_def ex_fresh_def)
  have h2: "df ex_proc = Some ex_frame" by (simp add: ex_proc_def ex_fresh_def)
  have h3: "''Crop_type'' \<in> set (columns ex_frame)" by (simp add: ex_frame_def)
  have h4: "''Elevation'' \<in> set (columns ex_frame)" by (simp add: ex_frame_def)
  from rename_columns_swap [OF h1 h2 h3 h4]
  obtain t' where run: "rename_columns ex_proc = (None, ex_proc\<lparr>df := Some t'\<rparr>)"
    and r: "rows t' = rows ex_frame"
    and c: "\<forall>i < length (columns ex_frame).
              (columns ex_frame ! i = ''Crop_type'' \<longrightarrow> columns t' ! i = ''Elevation'') \<and>
              (columns ex_frame ! i = ''Elevation'' \<longrightarrow> columns t' ! i = ''Crop_type'') \<and>
              (columns ex_frame ! i \<noteq> ''Crop_type'' \<and> columns ex_frame ! i \<noteq> ''Elevation''
                 \<longrightarrow> columns t' ! i = columns ex_frame ! i)"
    by blast
  from c [rule_format, of 0] have c0: "columns t' ! 0 = ''Field_ID''"
    by (simp add: ex_frame_def)
  from c [rule_format, of 1] have c1: "columns t' ! 1 = ''Elevation''"
    by (simp add: ex_frame_def)
  from c [rule_format, of 2] have c2: "columns t' ! 2 = ''Crop_type''"
    by (simp add: ex_frame_def)
  from h1 h2 h3 h4 run r c0 c1 c2 show ?thesis by blast
qed

text \<open>
  Claim C3. In a table that has both configured labels, a second call of
  \<open>rename_columns\<close> undoes the first: both calls return normally and the object is
  again what it was, the column arrangement included.
\<close>

theorem rename_columns_involution:
  assumes "columns_to_rename p = CDict ((a, b) # rest)" and "df p = Some t"
    and "a \<in> set (columns t)" and "b \<in> set (columns t)"
  shows "\<exists>p1. rename_columns p = (None, p1) \<and> rename_columns p1 = (None, p)"
proof -
  let ?t1 = "t\<lparr>columns := map (swap_label a b) (columns t)\<rparr>"
  let ?p1 = "p\<lparr>df := Some ?t1\<rparr>"
  have fresh: "temp_name (columns t) ''__temp_name_for_swap__'' \<notin> set (columns t)"
    by (rule temp_name_fresh)
  with assms(3) have ne: "a \<noteq> temp_name (columns t) ''__temp_name_for_swap__''" by auto
  have first: "rename_columns p = (None, ?p1)"
    by (rule rename_columns_labels [OF assms(1,2) ne])
  have b1: "a \<in> set (columns ?t1)"
    using assms(4) by (force simp: swap_label_def)
  have fresh1: "temp_name (columns ?t1) ''__temp_name_for_swap__'' \<notin> set (columns ?t1)"
    by (rule temp_name_fresh)
  with b1 have ne1: "a \<noteq> temp_name (columns ?t1) ''__temp_name_for_swap__''" by auto
  have c1: "columns_to_rename ?p1 = CDict ((a, b) # rest)" using assms(1) by simp
  have d1: "df ?p1 = Some ?t1" by simp
  have "rename_columns ?p1 = (None, ?p1\<lparr>df := Some (?t1\<lparr>columns := map (swap_label a b) (columns ?t1)\<rparr>)\<rparr>)"
    by (rule rename_columns_labels [OF c1 d1 ne1])
  moreover have "?t1\<lparr>columns := map (swap_label a b) (columns ?t1)\<rparr> = t"
    by (simp add: swap_label_twice comp_def)
  moreover have "p\<lparr>df := Some t\<rparr> = p" using assms(2) by simp
  ultimately have "rename_columns ?p1 = (None, p)" by simp
  with first show ?thesis by blast
qed

theorem rename_columns_involution_witness:
  "columns_to_rename ex_proc =
     CDict [(''Crop_type'', ''Elevation''), (''Field_ID'', ''Crop_type'')] \<and>
   df ex_proc = Some ex_frame \<and>
   ''Crop_type'' \<in> set (columns ex_frame) \<and> ''Elevation'' \<in> set (columns ex_frame) \<and>
   (\<exists>p1. rename_columns ex_proc = (None, p1) \<and> rename_columns p1 = (None, ex_proc))"
proof -
  have h1: "columns_to_rename ex_proc =
              CDict ((''Crop_type'', ''Elevation'') # [(''Field_ID'', ''Crop_type'')])"
    by (simp add: ex_proc_def ex_fresh_def)
  have h2: "df ex_proc = Some ex_frame" by (simp add: ex_proc_def ex_fresh_def)
  have h3: "''Crop_type'' \<in> set (columns ex_frame)" by (simp add: ex_frame_def)
  have h4: "''Elevation'' \<in> set (columns ex_frame)" by (simp add: ex_frame_def)
  from rename_columns_involution [OF h1 h2 h3 h4] h1 h2 h3 h4 show ?thesis by simp
qed

text \<open>
  Claim C10. Let \<open>(a, b)\<close> be the first entry of the rename dictionary. Whatever follows
  it changes nothing: the call raises or returns as it does with the first entry alone,
  and leaves the same object but for the dictionary it was given. And \<open>a\<close> and \<open>b\<close> are
  the pair that is swapped: on a table, unless \<open>a\<close> is the very placeholder the loop
  settles on, the call returns, every column labelled \<open>a\<close> is labelled \<open>b\<close> afterwards
  and every column labelled \<open>b\<close> is labelled \<open>a\<close>, and every other label, a key or a
  value of a later entry included, is where it was, as are the rows.
\<close>

theorem rename_columns_first_entry:
  assumes "columns_to_rename p = CDict ((a, b) # rest)"
  shows "rename_columns p =
           (case rename_columns (p\<lparr>columns_to_rename := CDict [(a, b)]\<rparr>) of
              (r, p') \<Rightarrow> (r, p'\<lparr>columns_to_rename := CDict ((a, b) # rest)\<rparr>)) \<and>
         (\<forall>t. df p = Some t \<and> a \<noteq> temp_name (columns t) ''__temp_name_for_swap__'' \<longrightarrow>
            (\<exists>t'. rename_columns p = (None, p\<lparr>df := Some t'\<rparr>) \<and> rows t' = rows t \<and>
                  length (columns t') = length (columns t) \<and>
                  (\<forall>i < length (columns t).
                     (columns t ! i = a \<longrightarrow> columns t' ! i = b) \<and>
                     (columns t ! i = b \<longrightarrow> columns t' ! i = a) \<and>
                     (columns t ! i \<noteq> a \<and> columns t ! i \<noteq> b \<longrightarrow>
                        columns t' ! i = columns t ! i))))"
proof (intro conjI allI impI)
  have "p\<lparr>columns_to_rename := CDict ((a, b) # rest)\<rparr> = p" using assms by simp
  then show "rename_columns p =
           (case rename_columns (p\<lparr>columns_to_rename := CDict [(a, b)]\<rparr>) of
              (r, p') \<Rightarrow> (r, p'\<lparr>columns_to_rename := CDict ((a, b) # rest)\<rparr>))"
    using assms by (simp add: rename_columns_def Let_def split: option.splits)
next
  fix t assume h: "df p = Some t \<and> a \<noteq> temp_name (columns t) ''__temp_name_for_swap__''"
  let ?t' = "t\<lparr>columns := map (swap_label a b) (columns t)\<rparr>"
  from h have d: "df p = Some t" and ne: "a \<noteq> temp_name (columns t) ''__temp_name_for_swap__''"
    by simp_all
  have "rename_columns p = (None, p\<lparr>df := Some ?t'\<rparr>)"
    by (rule rename_columns_labels [OF assms d ne])
  moreover have "rows ?t' = rows t" "length (columns ?t') = length (columns t)" by simp_all
  moreover have "\<forall>i < length (columns t).
                  (columns t ! i = a \<longrightarrow> columns ?t' ! i = b) \<and>
                  (columns t ! i = b \<longrightarrow> columns ?t' ! i = a) \<and>
                  (columns t ! i \<noteq> a \<and> columns t ! i \<noteq> b \<longrightarrow> columns ?t' ! i = columns t ! i)"
    by (simp add: swap_label_def)
  ultimately show "\<exists>t'. rename_columns p = (None, p\<lparr>df := Some t'\<rparr>) \<and> rows t' = rows t \<and>
                  length (columns t') = length (columns t) \<and>
                  (\<forall>i < length (columns t).
                     (columns t ! i = a \<longrightarrow> columns t' ! i = b) \<and>
                     (columns t ! i = b \<longrightarrow> columns t' ! i = a) \<and>
                     (columns t ! i \<noteq> a \<and> columns t ! i \<noteq> b \<longrightarrow>
                        columns t' ! i = columns t ! i))"
    by blast
qed

text \<open>
  The sample object's dictionary has the entries \<open>Crop_type: Elevation\<close> and
  \<open>Field_ID: Crop_type\<close>. The call exchanges \<open>Crop_type\<close> and \<open>Elevation\<close> and leaves
  \<open>Field_ID\<close> alone, and with the first entry alone it leaves the same table.
\<close>

lemma ex_temp_name:
  "temp_name [''Field_ID'', ''Crop_type'', ''Elevation''] ''__temp_name_for_swap__'' =
     ''__temp_name_for_swap__''"
  by (subst temp_name.simps) simp

theorem rename_columns_first_entry_witness:
  "columns_to_rename ex_proc =
     CDict [(''Crop_type'', ''Elevation''), (''Field_ID'', ''Crop_type'')] \<and>
   df ex_proc = Some ex_frame \<and>
   columns ex_frame = [''Field_ID'', ''Crop_type'', ''Elevation''] \<and>
   ''Crop_type'' \<noteq> temp_name (columns ex_frame) ''__temp_name_for_swap__'' \<and>
   (\<exists>t'. rename_columns ex_proc = (None, ex_proc\<lparr>df := Some t'\<rparr>) \<and>
         fst (rename_columns (ex_proc\<lparr>columns_to_rename := CDict [(''Crop_type'', ''Elevation'')]\<rparr>))
           = None \<and>
         df (snd (rename_columns
                    (ex_proc\<lparr>columns_to_rename := CDict [(''Crop_type'', ''Elevation'')]\<rparr>)))
           = Some t' \<and>
         rows t' = rows ex_frame \<and> length (columns t') = 3 \<and>
         columns t' ! 0 = ''Field_ID'' \<and> columns t' ! 1 = ''Elevation'' \<and>
         columns t' ! 2 = ''Crop_type'')"
proof -
  let ?one = "ex_proc\<lparr>columns_to_rename := CDict [(''Crop_type'', ''Elevation'')]\<rparr>"
  let ?full = "CDict ((''Crop_type'', ''Elevation'') # [(''Field_ID'', ''Crop_type'')])"
  have h1: "columns_to_rename ex_proc = ?full"
    by (simp add: ex_proc_def ex_fresh_def)
  have h2: "df ex_proc = Some ex_frame" by (simp add: ex_proc_def)
  have h3: "columns ex_frame = [''Field_ID'', ''Crop_type'', ''Elevation'']"
    by (simp add: ex_frame_def)
  have h4: "''Crop_type'' \<noteq> temp_name (columns ex_frame) ''__temp_name_for_swap__''"
    by (simp add: h3 ex_temp_name)
  note fe = rename_columns_first_entry [OF h1]
  from fe have ind: "rename_columns ex_proc =
           (case rename_columns ?one of (r, p') \<Rightarrow> (r, p'\<lparr>columns_to_rename := ?full\<rparr>))"
    by (rule conjunct1)
  from fe have "\<forall>t. df ex_proc = Some t \<and>
                 ''Crop_type'' \<noteq> temp_name (columns t) ''__temp_name_for_swap__'' \<longrightarrow>
            (\<exists>t'. rename_columns ex_proc = (None, ex_proc\<lparr>df := Some t'\<rparr>) \<and>
                  rows t' = rows t \<and> length (columns t') = length (columns t) \<and>
                  (\<forall>i < length (columns t).
                     (columns t ! i = ''Crop_type'' \<longrightarrow> columns t' ! i = ''Elevation'') \<and>
                     (columns t ! i = ''Elevation'' \<longrightarrow> columns t' ! i = ''Crop_type'') \<and>
                     (columns t ! i \<noteq> ''Crop_type'' \<and> columns t ! i \<noteq> ''Elevation'' \<longrightarrow>
                        columns t' ! i = columns t ! i)))"
    by (rule conjunct2)
  from this [rule_format, OF conjI [OF h2 h4]]
  obtain t' where run: "rename_columns ex_proc = (None, ex_proc\<lparr>df := Some t'\<rparr>)"
    and r: "rows t' = rows ex_frame"
    and l: "length (columns t') = length (columns ex_frame)"
    and c: "\<forall>i < length (columns ex_frame).
              (columns ex_frame ! i = ''Crop_type'' \<longrightarrow> columns t' ! i = ''Elevation'') \<and>
              (columns ex_frame ! i = ''Elevation'' \<longrightarrow> columns t' ! i = ''Crop_type'') \<and>
              (columns ex_frame ! i \<noteq> ''Crop_type'' \<and> columns ex_frame ! i \<noteq> ''Elevation''
                 \<longrightarrow> columns t' ! i = columns ex_frame ! i)"
    by blast
  from c [rule_format, of 0] have c0: "columns t' ! 0 = ''Field_ID''" by (simp add: h3)
  from c [rule_format, of 1] have c1: "columns t' ! 1 = ''Elevation''" by (simp add: h3)
  from c [rule_format, of 2] have c2: "columns t' ! 2 = ''Crop_type''" by (simp add: h3)
  from l have l3: "length (columns t') = 3" by (simp add: h3)
  obtain e q where one: "rename_columns ?one = (e, q)" by (rule prod.exhaust)
  from ind run one have "(e, q\<lparr>columns_to_rename := ?full\<rparr>) = (None, ex_proc\<lparr>df := Some t'\<rparr>)"
    by (simp only: prod.case)
  then have e: "e = None" and q: "q\<lparr>columns_to_rename := ?full\<rparr> = ex_proc\<lparr>df := Some t'\<rparr>"
    by (simp_all only: prod.inject)
  from q have "df (q\<lparr>columns_to_rename := ?full\<rparr>) = df (ex_proc\<lparr>df := Some t'\<rparr>)"
    by (rule arg_cong)
  then have dq: "df q = Some t'" by simp
  have o1: "fst (rename_columns ?one) = None" using one e by simp
  have o2: "df (snd (rename_columns ?one)) = Some t'" using one dq by simp
  from h1 h2 h3 h4 run o1 o2 r l3 c0 c1 c2 show ?thesis by blast
qed

text \<open>
  Claim C2 says that a configured label missing from the table makes \<open>rename_columns\<close>
  raise \<open>KeyError\<close>. It does not: \<open>DataFrame.rename\<close> ignores a key that is no label.
  With \<open>Annual_yield\<close> configured and absent, the call returns normally and the column
  \<open>Crop_type\<close> is relabelled.
\<close>

theorem rename_columns_absent_counterexample:
  "''Annual_yield'' \<notin> set (columns ex_frame) \<and>
   rename_columns (ex_proc\<lparr>columns_to_rename := CDict [(''Crop_type'', ''Annual_yield'')]\<rparr>) =
     (None, ex_proc\<lparr>columns_to_rename := CDict [(''Crop_type'', ''Annual_yield'')],
                     df := Some \<lparr> columns = [''Field_ID'', ''Annual_yield'', ''Elevation''],
                                  rows = rows ex_frame \<rparr>\<rparr>)"
  by (simp add: rename_columns_def rename_def ex_proc_def ex_fresh_def ex_frame_def ex_temp_name Let_def)

text \<open>
  Claim C2 as amended. When a configured label is missing from the table,
  \<open>rename_columns\<close> still returns normally; the rows, the number of columns and every
  label other than the two configured names are as before.
\<close>

theorem rename_columns_absent:
  assumes "columns_to_rename p = CDict ((a, b) # rest)" and "df p = Some t"
    and "a \<notin> set (columns t) \<or> b \<notin> set (columns t)"
  shows "\<exists>t'. rename_columns p = (None, p\<lparr>df := Some t'\<rparr>) \<and> rows t' = rows t \<and>
              length (columns t') = length (columns t) \<and>
              (\<forall>i < length (columns t).
                 columns t ! i \<noteq> a \<and> columns t ! i \<noteq> b \<longrightarrow> columns t' ! i = columns t ! i)"
proof -
  let ?tmp = "temp_name (columns t) ''__temp_name_for_swap__''"
  let ?t' = "rename [?tmp \<mapsto> b] (rename [a \<mapsto> ?tmp, b \<mapsto> a] t)"
  have fresh: "?tmp \<notin> set (columns t)" by (rule temp_name_fresh)
  have run: "rename_columns p = (None, p\<lparr>df := Some ?t'\<rparr>)"
    using assms(1,2) by (simp add: rename_columns_def Let_def)
  have "\<forall>i < length (columns t).
          columns t ! i \<noteq> a \<and> columns t ! i \<noteq> b \<longrightarrow> columns ?t' ! i = columns t ! i"
  proof (intro allI impI)
    fix i assume i: "i < length (columns t)" and n: "columns t ! i \<noteq> a \<and> columns t ! i \<noteq> b"
    from i have "columns t ! i \<in> set (columns t)" by simp
    with fresh have "columns t ! i \<noteq> ?tmp" by auto
    with i n show "columns ?t' ! i = columns t ! i" by (simp add: rename_def)
  qed
  moreover have "rows ?t' = rows t" "length (columns ?t') = length (columns t)"
    by (simp_all add: rename_def)
  ultimately show ?thesis using run by blast
qed

theorem rename_columns_absent_witness:
  "columns_to_rename (ex_proc\<lparr>columns_to_rename := CDict [(''Crop_type'', ''Annual_yield'')]\<rparr>) =
     CDict [(''Crop_type'', ''Annual_yield'')] \<and>
   df (ex_proc\<lparr>columns_to_rename := CDict [(''Crop_type'', ''Annual_yield'')]\<rparr>) = Some ex_frame \<and>
   ''Annual_yield'' \<notin> set (columns ex_frame) \<and>
   (\<exists>t'. rename_columns (ex_proc\<lparr>columns_to_rename := CDict [(''Crop_type'', ''Annual_yield'')]\<rparr>) =
           (None, ex_proc\<lparr>columns_to_rename := CDict [(''Crop_type'', ''Annual_yield'')],
                           df := Some t'\<rparr>) \<and>
         rows t' = rows ex_frame \<and> length (columns t') = 3 \<and>
         columns t' ! 0 = ''Field_ID'' \<and> columns t' ! 2 = ''Elevation'')"
proof -
  let ?p = "ex_proc\<lparr>columns_to_rename := CDict [(''Crop_type'', ''Annual_yield'')]\<rparr>"
  have h1: "columns_to_rename ?p = CDict ((''Crop_type'', ''Annual_yield'') # [])" by simp
  have h2: "df ?p = Some ex_frame" by (simp add: ex_proc_def ex_fresh_def)
  have h3: "''Annual_yield'' \<notin> set (columns ex_frame)" by (simp add: ex_frame_def)
  then have h3': "''Crop_type'' \<notin> set (columns ex_frame) \<or> ''Annual_yield'' \<notin> set (columns ex_frame)"
    by simp
  from rename_columns_absent [OF h1 h2 h3']
  obtain t' where run: "rename_columns ?p = (None, ?p\<lparr>df := Some t'\<rparr>)"
    and r: "rows t' = rows ex_frame"
    and l: "length (columns t') = length (columns ex_frame)"
    and c: "\<forall>i < length (columns ex_frame).
              columns ex_frame ! i \<noteq> ''Crop_type'' \<and> columns ex_frame ! i \<noteq> ''Annual_yield''
                \<longrightarrow> columns t' ! i = columns ex_frame ! i"
    by blast
  from c [rule_format, of 0] have c0: "columns t' ! 0 = ''Field_ID''"
    by (simp add: ex_frame_def)
  from c [rule_format, of 2] have c2: "columns t' ! 2 = ''Elevation''"
    by (simp add: ex_frame_def)
  from l have l3: "length (columns t') = 3" by (simp add: ex_frame_def)
  from h1 h2 h3 run r l3 c0 c2 show ?thesis by auto
qed

subsection \<open>Correct\<close>

text \<open>What a successful run over a list, or over the cells of a row, returns.\<close>

lemma traverse_Inr:
  "traverse g xs = Inr ys \<Longrightarrow> length ys = length xs \<and> (\<forall>k < length xs. g (xs ! k) = Inr (ys ! k))"
proof (induction xs arbitrary: ys)
  case Nil
  then show ?case by simp
next
  case (Cons x xs)
  from Cons.prems obtain y ys' where gx: "g x = Inr y" and tr: "traverse g xs = Inr ys'"
    and ys: "ys = y # ys'"
    by (auto split: sum.splits)
  from Cons.IH [OF tr] have len: "length ys' = length xs"
    and nth: "\<forall>k < length xs. g (xs ! k) = Inr (ys' ! k)" by simp_all
  show ?case
  proof (intro conjI allI impI)
    show "length ys = length (x # xs)" using len ys by simp
  next
    fix k assume "k < length (x # xs)"
    then show "g ((x # xs) ! k) = Inr (ys ! k)"
      using gx nth ys by (cases k) simp_all
  qed
qed

lemma traverse_total:
  "(\<forall>x \<in> set xs. \<exists>y. g x = Inr y) \<Longrightarrow> \<exists>ys. traverse g xs = Inr ys"
  by (induction xs) (auto split: sum.splits)

lemma abs_row_Inr:
  "abs_row l rs i cs xs = Inr ys \<Longrightarrow>
     length ys = length xs \<and>
     (\<forall>j < length xs.
        (j < length cs \<and> cs ! j = l \<longrightarrow>
           abs_cell (int64_column (i + j) rs) (xs ! j) = Inr (ys ! j)) \<and>
        (\<not> (j < length cs \<and> cs ! j = l) \<longrightarrow> ys ! j = xs ! j))"
proof (induction l rs i cs xs arbitrary: ys rule: abs_row.induct)
  case (1 l rs i c cs x xs)
  from "1.prems" obtain y ys'
    where hd: "(if c = l then abs_cell (int64_column i rs) x else Inr x) = Inr y"
    and tl: "abs_row l rs (Suc i) cs xs = Inr ys'" and ys: "ys = y # ys'"
    by (auto split: sum.splits if_splits)
  from "1.IH" [OF hd tl] have len: "length ys' = length xs"
    and nth: "\<forall>j < length xs.
        (j < length cs \<and> cs ! j = l \<longrightarrow>
           abs_cell (int64_column (Suc i + j) rs) (xs ! j) = Inr (ys' ! j)) \<and>
        (\<not> (j < length cs \<and> cs ! j = l) \<longrightarrow> ys' ! j = xs ! j)"
    by simp_all
  show ?case
  proof (intro conjI allI impI)
    show "length ys = length (x # xs)" using len ys by simp
  next
    fix j assume "j < length (x # xs)" "j < length (c # cs) \<and> (c # cs) ! j = l"
    then show "abs_cell (int64_column (i + j) rs) ((x # xs) ! j) = Inr (ys ! j)"
      using hd nth ys by (cases j) (auto split: if_splits)
  next
    fix j assume "j < length (x # xs)" "\<not> (j < length (c # cs) \<and> (c # cs) ! j = l)"
    then show "ys ! j = (x # xs) ! j"
      using hd nth ys by (cases j) (auto split: if_splits)
  qed
qed simp_all

lemma abs_row_total:
  "(\<forall>j < length xs. j < length cs \<and> cs ! j = l \<longrightarrow>
      (\<exists>y. abs_cell (int64_column (i + j) rs) (xs ! j) = Inr y)) \<Longrightarrow>
     \<exists>ys. abs_row l rs i cs xs = Inr ys"
proof (induction l rs i cs xs rule: abs_row.induct)
  case (1 l rs i c cs x xs)
  have "\<forall>j < length xs. j < length cs \<and> cs ! j = l \<longrightarrow>
          (\<exists>y. abs_cell (int64_column (Suc i + j) rs) (xs ! j) = Inr y)"
  proof (intro allI impI)
    fix j assume "j < length xs" "j < length cs \<and> cs ! j = l"
    with "1.prems" [rule_format, of "Suc j"]
    show "\<exists>y. abs_cell (int64_column (Suc i + j) rs) (xs ! j) = Inr y" by simp
  qed
  moreover from "1.prems" [rule_format, of 0]
  have "c = l \<Longrightarrow> \<exists>y. abs_cell (int64_column i rs) x = Inr y" by simp
  then obtain y where hd: "(if c = l then abs_cell (int64_column i rs) x else Inr x) = Inr y"
    by (cases "c = l") auto
  ultimately obtain ys where "abs_row l rs (Suc i) cs xs = Inr ys" using "1.IH" [OF hd] by blast
  with hd show ?case by (auto split: sum.splits)
qed simp_all

lemma map_label_length: "length (map_label l g cs xs) = length xs"
  by (induction l g cs xs rule: map_label.induct) simp_all

lemma map_label_nth:
  "i < length xs \<Longrightarrow>
     map_label l g cs xs ! i = (if i < length cs \<and> cs ! i = l then g (xs ! i) else xs ! i)"
proof (induction l g cs xs arbitrary: i rule: map_label.induct)
  case (1 l g c cs x xs)
  then show ?case by (cases i) simp_all
qed simp_all

lemma sint_abs_word:
  fixes w :: "64 word"
  assumes "sint w \<noteq> - (2 ^ 63)"
  shows "sint (if w <s 0 then - w else w) = \<bar>sint w\<bar>"
proof (cases "w <s 0")
  case True
  then have neg: "sint w < 0" by (simp add: word_sless_alt)
  have lo: "- (2 ^ 63) \<le> sint w" using sint_ge [of w] by simp
  have "sint (- w) = signed_take_bit 63 (- sint w)"
    by (simp add: sint_word_ariths)
  also have "\<dots> = - sint w"
    using lo neg assms by (intro signed_take_bit_int_eq_self) auto
  finally show ?thesis using True neg by simp
next
  case False
  then have "0 \<le> sint w" by (simp add: word_sless_alt)
  with False show ?thesis by simp
qed

lemma abs_cell_Inr:
  "abs_cell k c = Inr c' \<Longrightarrow>
     (c = NaN \<and> c' = NaN) \<or> (\<exists>x. c = F64 x \<and> c' = F64 \<bar>x\<bar>) \<or>
     (\<exists>w. c = I64 w \<and>
        c' = (if k then I64 (if w <s 0 then - w else w) else F64 \<bar>f64_of_int (sint w)\<bar>))"
  by (cases c) (auto split: if_splits)

lemma abs_cell_number:
  "c = NaN \<or> (\<exists>w. c = I64 w) \<or> (\<exists>x. c = F64 x) \<Longrightarrow> \<exists>y. abs_cell k c = Inr y"
  by (cases c) auto

text \<open>
  When \<open>apply_corrections\<close> returns, line 90 has run over every row, and the table is
  either that result or, when there are rows, that result with line 91 applied.
\<close>

lemma wf_frame_row: "wf_frame t \<Longrightarrow> r < length (rows t) \<Longrightarrow> length (rows t ! r) = length (columns t)"
  by (simp add: wf_frame_def list_all_length)

lemma apply_corrections_returns:
  assumes "df p = Some t" and "apply_corrections p cn ac = (None, p')"
  shows "\<exists>rs. traverse (abs_row ac (rows t) 0 (columns t)) (rows t) = Inr rs \<and>
              (df p' = Some (t\<lparr>rows := rs\<rparr>) \<or>
               (\<exists>m. values_to_rename p = CDict m \<and>
                    df p' = Some (t\<lparr>rows := map (map_label cn (remap m) (columns t)) rs\<rparr>)))"
  using assms
  by (auto simp: apply_corrections_def Let_def split: sum.splits if_splits cfgval.splits)

lemma abs_step_cell:
  assumes wf: "wf_frame t"
    and tr: "traverse (abs_row ac (rows t) 0 (columns t)) (rows t) = Inr rs"
    and r: "r < length (rows t)" and i: "i < length (columns t)"
  shows "length (rs ! r) = length (columns t) \<and>
         (columns t ! i = ac \<longrightarrow>
            abs_cell (int64_column i (rows t)) (rows t ! r ! i) = Inr (rs ! r ! i)) \<and>
         (columns t ! i \<noteq> ac \<longrightarrow> rs ! r ! i = rows t ! r ! i)"
proof -
  from traverse_Inr [OF tr] r
  have row: "abs_row ac (rows t) 0 (columns t) (rows t ! r) = Inr (rs ! r)" by simp
  have len: "length (rows t ! r) = length (columns t)" by (rule wf_frame_row [OF wf r])
  from abs_row_Inr [OF row] len i show ?thesis by auto
qed

lemma remap_number: "abs_cell k c = Inr c' \<Longrightarrow> remap m c' = c'"
  by (cases c) (auto split: if_splits)

text \<open>
  What line 90 leaves, cell by cell, when \<open>apply_corrections\<close> returns. Under the numeric
  label a float holds its absolute value and a missing value stays missing. An integer
  in an \<open>int64\<close> column holds its absolute value unless it is \<open>- 2 ^ 63\<close>, which stays;
  an integer in a column that pandas holds as \<open>float64\<close> becomes the absolute value of
  its float. Nothing else is under that label.
\<close>

lemma apply_corrections_abs_values:
  assumes "df p = Some t" and "wf_frame t"
    and "apply_corrections p column_name abs_column = (None, p')"
  shows "\<exists>t'. df p' = Some t' \<and> columns t' = columns t \<and> length (rows t') = length (rows t) \<and>
           (\<forall>r < length (rows t). \<forall>i < length (columns t). columns t ! i = abs_column \<longrightarrow>
              (rows t ! r ! i = NaN \<and> rows t' ! r ! i = NaN) \<or>
              (\<exists>x. rows t ! r ! i = F64 x \<and> rows t' ! r ! i = F64 \<bar>x\<bar>) \<or>
              (\<exists>w. rows t ! r ! i = I64 w \<and> \<not> int64_column i (rows t) \<and>
                 rows t' ! r ! i = F64 \<bar>f64_of_int (sint w)\<bar>) \<or>
              (\<exists>w w'. rows t ! r ! i = I64 w \<and> int64_column i (rows t) \<and>
                 rows t' ! r ! i = I64 w' \<and>
                 (sint w \<noteq> - (2 ^ 63) \<longrightarrow> sint w' = \<bar>sint w\<bar> \<and> 0 \<le> sint w') \<and>
                 (sint w = - (2 ^ 63) \<longrightarrow> w' = w)))"
proof -
  from apply_corrections_returns [OF assms(1,3)]
  obtain rs where tr: "traverse (abs_row abs_column (rows t) 0 (columns t)) (rows t) = Inr rs"
    and fin: "df p' = Some (t\<lparr>rows := rs\<rparr>) \<or>
              (\<exists>m. values_to_rename p = CDict m \<and>
                 df p' = Some (t\<lparr>rows := map (map_label column_name (remap m) (columns t)) rs\<rparr>))"
    by blast
  have len: "length rs = length (rows t)" using traverse_Inr [OF tr] by simp
  have "\<exists>t'. df p' = Some t' \<and> columns t' = columns t \<and>
          (rows t' = rs \<or> (\<exists>m. rows t' = map (map_label column_name (remap m) (columns t)) rs))"
    using fin
  proof
    assume "df p' = Some (t\<lparr>rows := rs\<rparr>)"
    then show ?thesis by (intro exI [of _ "t\<lparr>rows := rs\<rparr>"]) simp
  next
    assume "\<exists>m. values_to_rename p = CDict m \<and>
                 df p' = Some (t\<lparr>rows := map (map_label column_name (remap m) (columns t)) rs\<rparr>)"
    then obtain m where
      "df p' = Some (t\<lparr>rows := map (map_label column_name (remap m) (columns t)) rs\<rparr>)"
      by blast
    then show ?thesis
      by (intro exI [of _ "t\<lparr>rows := map (map_label column_name (remap m) (columns t)) rs\<rparr>"])
         auto
  qed
  then obtain t' where t': "df p' = Some t'" and cols: "columns t' = columns t"
    and rws: "rows t' = rs \<or> (\<exists>m. rows t' = map (map_label column_name (remap m) (columns t)) rs)"
    by blast
  have cells: "(rows t ! r ! i = NaN \<and> rows t' ! r ! i = NaN) \<or>
              (\<exists>x. rows t ! r ! i = F64 x \<and> rows t' ! r ! i = F64 \<bar>x\<bar>) \<or>
              (\<exists>w. rows t ! r ! i = I64 w \<and> \<not> int64_column i (rows t) \<and>
                 rows t' ! r ! i = F64 \<bar>f64_of_int (sint w)\<bar>) \<or>
              (\<exists>w w'. rows t ! r ! i = I64 w \<and> int64_column i (rows t) \<and>
                 rows t' ! r ! i = I64 w' \<and>
                 (sint w \<noteq> - (2 ^ 63) \<longrightarrow> sint w' = \<bar>sint w\<bar> \<and> 0 \<le> sint w') \<and>
                 (sint w = - (2 ^ 63) \<longrightarrow> w' = w))"
    if r: "r < length (rows t)" and i: "i < length (columns t)" and lab: "columns t ! i = abs_column"
    for r i
  proof -
    from abs_step_cell [OF assms(2) tr r i] lab
    have rl: "length (rs ! r) = length (columns t)"
      and ab: "abs_cell (int64_column i (rows t)) (rows t ! r ! i) = Inr (rs ! r ! i)"
      by simp_all
    have same: "rows t' ! r ! i = rs ! r ! i"
    proof -
      from rws show ?thesis
      proof
        assume "rows t' = rs" then show ?thesis by simp
      next
        assume "\<exists>m. rows t' = map (map_label column_name (remap m) (columns t)) rs"
        then obtain m where "rows t' = map (map_label column_name (remap m) (columns t)) rs" ..
        with r len have "rows t' ! r ! i = map_label column_name (remap m) (columns t) (rs ! r) ! i"
          by simp
        also have "\<dots> = (if columns t ! i = column_name then remap m (rs ! r ! i) else rs ! r ! i)"
          using rl i by (simp add: map_label_nth)
        also have "\<dots> = rs ! r ! i" using remap_number [OF ab] by simp
        finally show ?thesis .
      qed
    qed
    from abs_cell_Inr [OF ab]
    consider "rows t ! r ! i = NaN \<and> rs ! r ! i = NaN"
      | x where "rows t ! r ! i = F64 x" "rs ! r ! i = F64 \<bar>x\<bar>"
      | w where "rows t ! r ! i = I64 w" "\<not> int64_column i (rows t)"
          "rs ! r ! i = F64 \<bar>f64_of_int (sint w)\<bar>"
      | w where "rows t ! r ! i = I64 w" "int64_column i (rows t)"
          "rs ! r ! i = I64 (if w <s 0 then - w else w)"
      by (cases "int64_column i (rows t)") auto
    then show ?thesis
    proof cases
      case 1
      with same show ?thesis by simp
    next
      case 2
      with same show ?thesis by simp
    next
      case 3
      with same show ?thesis by simp
    next
      case 4
      have a: "sint w \<noteq> - (2 ^ 63) \<longrightarrow>
                 sint (if w <s 0 then - w else w) = \<bar>sint w\<bar> \<and> 0 \<le> sint (if w <s 0 then - w else w)"
        using sint_abs_word [of w] by simp
      have b: "sint w = - (2 ^ 63) \<longrightarrow> (if w <s 0 then - w else w) = w"
      proof
        assume m: "sint w = - (2 ^ 63)"
        have "sint w = sint (- 9223372036854775808 :: 64 word)" using m by simp
        then have "w = - 9223372036854775808" by (rule signed_word_eqI)
        then show "(if w <s 0 then - w else w) = w" by simp
      qed
      from 4 same a b show ?thesis by simp
    qed
  qed
  from t' cols rws len cells show ?thesis by (intro exI [of _ t']) auto
qed

text \<open>
  Claim C5. An \<open>int64\<close> elevation of \<open>- 2 ^ 63\<close>, the least 64-bit integer: the call
  returns normally and the table is the one it was given, so the value under the numeric
  label is still \<open>- 2 ^ 63\<close>. It is negative and differs from its absolute value
  \<open>2 ^ 63\<close>, which the claim and the docstring of line 88 ask for.
\<close>

theorem apply_corrections_abs_int64_min:
  "df ex_min_proc =
     Some \<lparr> columns = [''Crop_type'', ''Elevation''],
            rows = [[Str ''Corn'', I64 (- 9223372036854775808)]] \<rparr> \<and>
   apply_corrections ex_min_proc ''Crop_type'' ''Elevation'' = (None, ex_min_proc) \<and>
   sint (- 9223372036854775808 :: 64 word) = - (2 ^ 63) \<and>
   sint (- 9223372036854775808 :: 64 word) < 0 \<and>
   sint (- 9223372036854775808 :: 64 word) \<noteq> \<bar>sint (- 9223372036854775808 :: 64 word)\<bar>"
  by (simp add: apply_corrections_def ex_min_proc_def ex_proc_def ex_fresh_def Let_def
      int64_column_def word_sless_alt)

text \<open>
  The same value beside a missing one is in a \<open>float64\<close> column, and there the absolute
  value comes out right; so does every other integer and every float, as
  \<open>apply_corrections_abs_values\<close> says. On the sample table \<open>- 5\<close> becomes \<open>5\<close>.
\<close>

lemma excess_bits_int64_min: "excess_bits 9223372036854775808 = 11"
  by (simp add: excess_bits_def)

lemma f64_of_int64_min: "f64_of_int (- 9223372036854775808) = - 9223372036854775808"
  by (simp add: f64_of_int_def excess_bits_int64_min Let_def)

lemma ex_abs_float_column:
  "apply_corrections
     (ex_proc\<lparr>df := Some \<lparr> columns = [''Crop_type'', ''Elevation''],
                           rows = [[Str ''Corn'', I64 (- 9223372036854775808)],
                                   [Str ''Corn'', NaN],
                                   [Str ''Corn'', F64 (- 2.5)]] \<rparr>\<rparr>)
     ''Crop_type'' ''Elevation'' =
     (None, ex_proc\<lparr>df := Some \<lparr> columns = [''Crop_type'', ''Elevation''],
                                 rows = [[Str ''Corn'', F64 9223372036854775808],
                                         [Str ''Corn'', NaN],
                                         [Str ''Corn'', F64 2.5]] \<rparr>\<rparr>)"
  using f64_of_int64_min
  by (simp add: apply_corrections_def ex_proc_def ex_fresh_def Let_def int64_column_def)

lemma ex_apply_corrections:
  "apply_corrections ex_proc ''Crop_type'' ''Elevation'' =
     (None, ex_proc\<lparr>df := Some \<lparr> columns = [''Field_ID'', ''Crop_type'', ''Elevation''],
                                  rows = [[I64 1, Str ''Corn'', I64 5],
                                          [I64 2, Str ''Wheat'', I64 10]] \<rparr>\<rparr>)"
  by (simp add: apply_corrections_def ex_proc_def ex_fresh_def ex_frame_def Let_def
      int64_column_def word_sless_alt)

text \<open>The function of line 91 on one cell: the table's value for a key, the cell otherwise.\<close>

lemma remap_cases:
  "(\<forall>s v. c = Str s \<and> map_of m s = Some v \<longrightarrow> remap m c = Str v) \<and>
   ((\<forall>s. c = Str s \<longrightarrow> map_of m s = None) \<longrightarrow> remap m c = c)"
  by (cases c) (auto split: option.splits)

text \<open>
  Claim C6. Let the categorical label name one column, different from the numeric one,
  and let line 90 have nothing to raise on (numbers and missing values under the numeric
  label). Then \<open>apply_corrections\<close> returns whatever the cells under the categorical
  label are, and each of them is the table's value when the cell is a key of the remap
  table and is unchanged otherwise.
\<close>

theorem apply_corrections_remap:
  assumes "df p = Some t" and "wf_frame t" and "values_to_rename p = CDict m"
    and "column_name \<noteq> abs_column"
    and "count_list (columns t) column_name = 1"
    and "abs_column \<in> set (columns t)"
    and "\<forall>r < length (rows t). \<forall>i < length (columns t). columns t ! i = abs_column \<longrightarrow>
           rows t ! r ! i = NaN \<or> (\<exists>w. rows t ! r ! i = I64 w) \<or> (\<exists>x. rows t ! r ! i = F64 x)"
  shows "\<exists>p' t'. apply_corrections p column_name abs_column = (None, p') \<and>
           df p' = Some t' \<and> columns t' = columns t \<and> length (rows t') = length (rows t) \<and>
           (\<forall>r < length (rows t). \<forall>i < length (columns t). columns t ! i = column_name \<longrightarrow>
              (\<forall>s v. rows t ! r ! i = Str s \<and> map_of m s = Some v \<longrightarrow> rows t' ! r ! i = Str v) \<and>
              ((\<forall>s. rows t ! r ! i = Str s \<longrightarrow> map_of m s = None) \<longrightarrow>
                 rows t' ! r ! i = rows t ! r ! i))"
proof -
  have "\<forall>row \<in> set (rows t). \<exists>ys. abs_row abs_column (rows t) 0 (columns t) row = Inr ys"
  proof
    fix row assume "row \<in> set (rows t)"
    then obtain r where r: "r < length (rows t)" and row: "row = rows t ! r"
      by (auto simp: in_set_conv_nth)
    have len: "length row = length (columns t)" using wf_frame_row [OF assms(2) r] row by simp
    have "\<forall>i < length row. i < length (columns t) \<and> columns t ! i = abs_column \<longrightarrow>
            (\<exists>y. abs_cell (int64_column (0 + i) (rows t)) (row ! i) = Inr y)"
    proof (intro allI impI)
      fix i assume "i < length row" and h: "i < length (columns t) \<and> columns t ! i = abs_column"
      with assms(7) r row
      have "row ! i = NaN \<or> (\<exists>w. row ! i = I64 w) \<or> (\<exists>x. row ! i = F64 x)" by simp
      then show "\<exists>y. abs_cell (int64_column (0 + i) (rows t)) (row ! i) = Inr y"
        by (rule abs_cell_number)
    qed
    then show "\<exists>ys. abs_row abs_column (rows t) 0 (columns t) row = Inr ys"
      by (rule abs_row_total)
  qed
  then obtain rs where tr: "traverse (abs_row abs_column (rows t) 0 (columns t)) (rows t) = Inr rs"
    using traverse_total by blast
  have len: "length rs = length (rows t)" using traverse_Inr [OF tr] by simp
  have mem: "column_name \<in> set (columns t)"
    using assms(5) by (metis count_list_0_iff zero_neq_one)
  define t' where "t' = (if rs = [] then t\<lparr>rows := rs\<rparr>
                         else t\<lparr>rows := map (map_label column_name (remap m) (columns t)) rs\<rparr>)"
  have run: "apply_corrections p column_name abs_column = (None, p\<lparr>df := Some t'\<rparr>)"
    using assms(1,3,5,6) tr mem by (simp add: apply_corrections_def Let_def t'_def)
  have cols: "columns t' = columns t" by (simp add: t'_def)
  have len': "length (rows t') = length (rows t)" using len by (auto simp: t'_def)
  have cells: "rows t' ! r ! i = remap m (rows t ! r ! i)"
    if r: "r < length (rows t)" and i: "i < length (columns t)" and lab: "columns t ! i = column_name"
    for r i
  proof -
    from abs_step_cell [OF assms(2) tr r i] lab assms(4)
    have rl: "length (rs ! r) = length (columns t)" and same: "rs ! r ! i = rows t ! r ! i"
      by simp_all
    from r len have ne: "rs \<noteq> []" by auto
    then have "rows t' ! r ! i = map_label column_name (remap m) (columns t) (rs ! r) ! i"
      using r len by (simp add: t'_def)
    also have "\<dots> = remap m (rs ! r ! i)" using rl i lab by (simp add: map_label_nth)
    finally show ?thesis using same by simp
  qed
  have "\<forall>r < length (rows t). \<forall>i < length (columns t). columns t ! i = column_name \<longrightarrow>
              (\<forall>s v. rows t ! r ! i = Str s \<and> map_of m s = Some v \<longrightarrow> rows t' ! r ! i = Str v) \<and>
              ((\<forall>s. rows t ! r ! i = Str s \<longrightarrow> map_of m s = None) \<longrightarrow>
                 rows t' ! r ! i = rows t ! r ! i)"
  proof (intro allI impI)
    fix r i assume "r < length (rows t)" "i < length (columns t)" "columns t ! i = column_name"
    then have "rows t' ! r ! i = remap m (rows t ! r ! i)" by (rule cells)
    with remap_cases [of "rows t ! r ! i" m]
    show "(\<forall>s v. rows t ! r ! i = Str s \<and> map_of m s = Some v \<longrightarrow> rows t' ! r ! i = Str v) \<and>
              ((\<forall>s. rows t ! r ! i = Str s \<longrightarrow> map_of m s = None) \<longrightarrow>
                 rows t' ! r ! i = rows t ! r ! i)"
      by simp
  qed
  moreover have "df (p\<lparr>df := Some t'\<rparr>) = Some t'" by simp
  ultimately show ?thesis using run cols len' by blast
qed

text \<open>On the sample table \<open>XYZ\<close> becomes \<open>Wheat\<close> and \<open>Corn\<close>, no key, stays.\<close>

theorem apply_corrections_remap_witness:
  "df ex_proc = Some ex_frame \<and> wf_frame ex_frame \<and>
   values_to_rename ex_proc = CDict [(''XYZ'', ''Wheat'')] \<and>
   count_list (columns ex_frame) ''Crop_type'' = 1 \<and>
   ''Elevation'' \<in> set (columns ex_frame) \<and>
   (\<exists>p' t'. apply_corrections ex_proc ''Crop_type'' ''Elevation'' = (None, p') \<and>
            df p' = Some t' \<and>
            rows ex_frame ! 0 ! 1 = Str ''Corn'' \<and> rows t' ! 0 ! 1 = Str ''Corn'' \<and>
            rows ex_frame ! 1 ! 1 = Str ''XYZ'' \<and> rows t' ! 1 ! 1 = Str ''Wheat'')"
proof -
  have h1: "df ex_proc = Some ex_frame" by (simp add: ex_proc_def ex_fresh_def)
  have h2: "wf_frame ex_frame" by (simp add: wf_frame_def ex_frame_def)
  have h3: "values_to_rename ex_proc = CDict [(''XYZ'', ''Wheat'')]" by (simp add: ex_proc_def ex_fresh_def)
  have h4: "''Crop_type'' \<noteq> ''Elevation''" by simp
  have h5: "count_list (columns ex_frame) ''Crop_type'' = 1" by (simp add: ex_frame_def)
  have h6: "''Elevation'' \<in> set (columns ex_frame)" by (simp add: ex_frame_def)
  have h7: "\<forall>r < length (rows ex_frame). \<forall>i < length (columns ex_frame).
              columns ex_frame ! i = ''Elevation'' \<longrightarrow>
              rows ex_frame ! r ! i = NaN \<or> (\<exists>w. rows ex_frame ! r ! i = I64 w) \<or>
              (\<exists>x. rows ex_frame ! r ! i = F64 x)"
    by (auto simp: ex_frame_def less_Suc_eq numeral_2_eq_2 numeral_3_eq_3)
  from apply_corrections_remap [OF h1 h2 h3 h4 h5 h6 h7]
  obtain p' t' where run: "apply_corrections ex_proc ''Crop_type'' ''Elevation'' = (None, p')"
    and t': "df p' = Some t'"
    and c: "\<forall>r < length (rows ex_frame). \<forall>i < length (columns ex_frame).
              columns ex_frame ! i = ''Crop_type'' \<longrightarrow>
              (\<forall>s v. rows ex_frame ! r ! i = Str s \<and> map_of [(''XYZ'', ''Wheat'')] s = Some v
                 \<longrightarrow> rows t' ! r ! i = Str v) \<and>
              ((\<forall>s. rows ex_frame ! r ! i = Str s \<longrightarrow> map_of [(''XYZ'', ''Wheat'')] s = None)
                 \<longrightarrow> rows t' ! r ! i = rows ex_frame ! r ! i)"
    by blast
  have i: "(1::nat) < length (columns ex_frame)" and l: "columns ex_frame ! 1 = ''Crop_type''"
    and r0: "(0::nat) < length (rows ex_frame)" and r1: "(1::nat) < length (rows ex_frame)"
    and v0: "rows ex_frame ! 0 ! 1 = Str ''Corn''" and v1: "rows ex_frame ! 1 ! 1 = Str ''XYZ''"
    by (simp_all add: ex_frame_def)
  from c [rule_format, OF r0 i l] v0 have c0: "rows t' ! 0 ! 1 = Str ''Corn''" by simp
  from c [rule_format, OF r1 i l] v1 have c1: "rows t' ! 1 ! 1 = Str ''Wheat''" by simp
  from h1 h2 h3 h5 h6 run t' v0 v1 c0 c1 show ?thesis by blast
qed

subsection \<open>The constructor\<close>

text \<open>
  Claim C7. When one of the five required keys is missing from the configuration
  dictionary, the constructor raises \<open>KeyError\<close> for a missing required key and hands back
  no object, so nothing of the configuration is kept. The constructor is given no
  collaborator, so nothing is ingested before it raises.
\<close>

theorem init_missing_key:
  assumes "k \<in> set required_keys" and "map_of cfg k = None"
  shows "\<exists>k'. k' \<in> set required_keys \<and> map_of cfg k' = None \<and>
              (init cfg :: error + 'e processor) = Inl (KeyError k')"
proof -
  have m1: "''db_path'' \<in> set required_keys"
    and m2: "''sql_query'' \<in> set required_keys"
    and m3: "''columns_to_rename'' \<in> set required_keys"
    and m4: "''values_to_rename'' \<in> set required_keys"
    and m5: "''weather_mapping_csv'' \<in> set required_keys"
    by (simp_all add: required_keys_def)
  show ?thesis
  proof (cases "map_of cfg ''db_path''")
    case None
    then have "(init cfg :: error + 'e processor) = Inl (KeyError ''db_path'')"
      by (simp add: init_def getitem_def)
    with m1 None show ?thesis by blast
  next
    case a: (Some v1)
    show ?thesis
    proof (cases "map_of cfg ''sql_query''")
      case None
      with a have "(init cfg :: error + 'e processor) = Inl (KeyError ''sql_query'')"
        by (simp add: init_def getitem_def)
      with m2 None show ?thesis by blast
    next
      case b: (Some v2)
      show ?thesis
      proof (cases "map_of cfg ''columns_to_rename''")
        case None
        with a b have "(init cfg :: error + 'e processor) = Inl (KeyError ''columns_to_rename'')"
          by (simp add: init_def getitem_def)
        with m3 None show ?thesis by blast
      next
        case c: (Some v3)
        show ?thesis
        proof (cases "map_of cfg ''values_to_rename''")
          case None
          with a b c
          have "(init cfg :: error + 'e processor) = Inl (KeyError ''values_to_rename'')"
            by (simp add: init_def getitem_def)
          with m4 None show ?thesis by blast
        next
          case d: (Some v4)
          show ?thesis
          proof (cases "map_of cfg ''weather_mapping_csv''")
            case None
            with a b c d
            have "(init cfg :: error + 'e processor) = Inl (KeyError ''weather_mapping_csv'')"
              by (simp add: init_def getitem_def)
            with m5 None show ?thesis by blast
          next
            case e: (Some v5)
            from assms(1) have "k = ''db_path'' \<or> k = ''sql_query'' \<or> k = ''columns_to_rename'' \<or>
                    k = ''values_to_rename'' \<or> k = ''weather_mapping_csv''"
              by (simp add: required_keys_def)
            then have "map_of cfg k \<noteq> None"
              using a b c d e by (elim disjE) simp_all
            with assms(2) show ?thesis by simp
          qed
        qed
      qed
    qed
  qed
qed

text \<open>Without \<open>sql_query\<close> the constructor raises \<open>KeyError\<close> for that key.\<close>

theorem init_missing_key_witness:
  "''sql_query'' \<in> set required_keys \<and> map_of ex_cfg ''sql_query'' = None \<and>
   (\<exists>k'. k' \<in> set required_keys \<and> map_of ex_cfg k' = None \<and>
         (init ex_cfg :: error + unit processor) = Inl (KeyError k'))"
proof -
  have h1: "''sql_query'' \<in> set required_keys" by (simp add: required_keys_def)
  have h2: "map_of ex_cfg ''sql_query'' = None" by (simp add: ex_cfg_def ex_config_def)
  from init_missing_key [OF h1 h2] h1 h2 show ?thesis by blast
qed

lemma ex_init: "(init ex_cfg :: error + unit processor) = Inl (KeyError ''sql_query'')"
  by (simp add: init_def getitem_def ex_cfg_def ex_config_def)

text \<open>With all five keys the object is built, without a table and without an engine.\<close>

lemma init_complete:
  assumes "\<forall>k \<in> set required_keys. map_of cfg k \<noteq> None"
  shows "\<exists>p. (init cfg :: error + 'e processor) = Inr p \<and> config_params p = cfg \<and>
             df p = None \<and> engine p = None"
proof -
  have "map_of cfg ''db_path'' \<noteq> None" "map_of cfg ''sql_query'' \<noteq> None"
    "map_of cfg ''columns_to_rename'' \<noteq> None" "map_of cfg ''values_to_rename'' \<noteq> None"
    "map_of cfg ''weather_mapping_csv'' \<noteq> None"
    using assms by (simp_all add: required_keys_def)
  then show ?thesis by (auto simp: init_def getitem_def)
qed

lemma ex_init_complete: "init ex_config = Inr ex_fresh"
  by (simp add: init_def getitem_def ex_config_def ex_fresh_def)

subsection \<open>The pipeline\<close>

text \<open>
  Claim C8. \<open>process\<close> runs ingestion first; when that returns it runs the rename on the
  object ingestion left, then the corrections on the object the rename left, then the
  enrichment on the object the corrections left, and the outcome of the enrichment is the
  outcome of \<open>process\<close>. When a stage raises, \<open>process\<close> raises the same error and the
  object is as that stage left it: no later stage has run.
\<close>

theorem process_stages:
  "(\<forall>e p1. ingest_sql_data env p = (Some e, p1) \<longrightarrow> process env p = (Some e, p1)) \<and>
   (\<forall>p1 e p2. ingest_sql_data env p = (None, p1) \<and> rename_columns p1 = (Some e, p2) \<longrightarrow>
      process env p = (Some e, p2)) \<and>
   (\<forall>p1 p2 e p3. ingest_sql_data env p = (None, p1) \<and> rename_columns p1 = (None, p2) \<and>
      apply_corrections p2 ''Crop_type'' ''Elevation'' = (Some e, p3) \<longrightarrow>
      process env p = (Some e, p3)) \<and>
   (\<forall>p1 p2 p3. ingest_sql_data env p = (None, p1) \<and> rename_columns p1 = (None, p2) \<and>
      apply_corrections p2 ''Crop_type'' ''Elevation'' = (None, p3) \<longrightarrow>
      process env p = weather_station_mapping env p3)"
  by (simp add: process_def and_then_def)

text \<open>
  The sample run, stage by stage, and a run with an empty rename dictionary, which stops
  at the rename with \<open>IndexError\<close> and the ingested table untouched.
\<close>

lemma ex_temp_name_raw:
  "temp_name [''Field_ID'', ''Elevation'', ''Crop_type'', ''Weather_station_ID'']
     ''__temp_name_for_swap__'' = ''__temp_name_for_swap__''"
  by (subst temp_name.simps) simp

lemma ex_ingest:
  "ingest_sql_data ex_env ex_fresh = (None, ex_fresh\<lparr>engine := Some (), df := Some ex_raw\<rparr>)"
  by (simp add: ingest_sql_data_def ex_env_def)

lemma ex_rename:
  "rename_columns (ex_fresh\<lparr>engine := Some (), df := Some ex_raw\<rparr>) =
     (None, ex_fresh\<lparr>engine := Some (),
                     df := Some (ex_raw\<lparr>columns :=
                       [''Field_ID'', ''Crop_type'', ''Elevation'', ''Weather_station_ID'']\<rparr>)\<rparr>)"
  by (simp add: rename_columns_def rename_def ex_fresh_def ex_proc_def ex_raw_def
      ex_temp_name_raw Let_def)

lemma ex_correct:
  "apply_corrections
     (ex_fresh\<lparr>engine := Some (),
               df := Some (ex_raw\<lparr>columns :=
                 [''Field_ID'', ''Crop_type'', ''Elevation'', ''Weather_station_ID'']\<rparr>)\<rparr>)
     ''Crop_type'' ''Elevation'' =
     (None, ex_fresh\<lparr>engine := Some (),
                     df := Some \<lparr> columns =
                              [''Field_ID'', ''Crop_type'', ''Elevation'', ''Weather_station_ID''],
                            rows = [[I64 1, Str ''Corn'', I64 5, Str ''WS1''],
                                    [I64 2, Str ''Wheat'', I64 10, Str ''WS2''],
                                    [I64 3, Str ''Corn'', I64 3, Str ''WS3'']] \<rparr>\<rparr>)"
  by (simp add: apply_corrections_def ex_fresh_def ex_proc_def ex_raw_def Let_def
      int64_column_def word_sless_alt)

lemma ex_enrich:
  "weather_station_mapping ex_env
     (ex_fresh\<lparr>engine := Some (),
               df := Some \<lparr> columns =
                        [''Field_ID'', ''Crop_type'', ''Elevation'', ''Weather_station_ID''],
                      rows = [[I64 1, Str ''Corn'', I64 5, Str ''WS1''],
                              [I64 2, Str ''Wheat'', I64 10, Str ''WS2''],
                              [I64 3, Str ''Corn'', I64 3, Str ''WS3'']] \<rparr>\<rparr>) =
     (None, ex_fresh\<lparr>engine := Some (),
                     df := Some \<lparr> columns =
                              [''Field_ID'', ''Crop_type'', ''Elevation'',
                               ''Weather_station_x'', ''Weather_station_y''],
                            rows = [[I64 1, Str ''Corn'', I64 5, Str ''WS1'', Str ''Station-A''],
                                    [I64 2, Str ''Wheat'', I64 10, Str ''WS2'', Str ''Station-B''],
                                    [I64 3, Str ''Corn'', I64 3, Str ''WS3'', NaN]] \<rparr>\<rparr>)"
  by (simp add: weather_station_mapping_def merge_left_def join_row_def matches_def
      keys_match_def drop_at_def rename_def ex_env_def ex_weather_def ex_fresh_def ex_proc_def
      Let_def)

lemma ex_rename_empty:
  "rename_columns (ex_fresh\<lparr>columns_to_rename := CDict [], engine := Some (), df := Some ex_raw\<rparr>) =
     (Some IndexError,
      ex_fresh\<lparr>columns_to_rename := CDict [], engine := Some (), df := Some ex_raw\<rparr>)"
  by (simp add: rename_columns_def)

lemma ex_ingest_empty:
  "ingest_sql_data ex_env (ex_fresh\<lparr>columns_to_rename := CDict []\<rparr>) =
     (None, ex_fresh\<lparr>columns_to_rename := CDict [], engine := Some (), df := Some ex_raw\<rparr>)"
  by (simp add: ingest_sql_data_def ex_env_def)

theorem process_stages_witness:
  "process ex_env ex_fresh =
     (None, ex_fresh\<lparr>engine := Some (),
                     df := Some \<lparr> columns =
                              [''Field_ID'', ''Crop_type'', ''Elevation'',
                               ''Weather_station_x'', ''Weather_station_y''],
                            rows = [[I64 1, Str ''Corn'', I64 5, Str ''WS1'', Str ''Station-A''],
                                    [I64 2, Str ''Wheat'', I64 10, Str ''WS2'', Str ''Station-B''],
                                    [I64 3, Str ''Corn'', I64 3, Str ''WS3'', NaN]] \<rparr>\<rparr>) \<and>
   process ex_env (ex_fresh\<lparr>columns_to_rename := CDict []\<rparr>) =
     (Some IndexError,
      ex_fresh\<lparr>columns_to_rename := CDict [], engine := Some (), df := Some ex_raw\<rparr>)"
proof -
  note st = process_stages [of ex_env ex_fresh]
  from st have "\<forall>p1 p2 p3. ingest_sql_data ex_env ex_fresh = (None, p1) \<and>
      rename_columns p1 = (None, p2) \<and>
      apply_corrections p2 ''Crop_type'' ''Elevation'' = (None, p3) \<longrightarrow>
      process ex_env ex_fresh = weather_station_mapping ex_env p3"
    by (elim conjE)
  from this [rule_format, OF conjI [OF ex_ingest conjI [OF ex_rename ex_correct]]]
  have a: "process ex_env ex_fresh =
     (None, ex_fresh\<lparr>engine := Some (),
                     df := Some \<lparr> columns =
                              [''Field_ID'', ''Crop_type'', ''Elevation'',
                               ''Weather_station_x'', ''Weather_station_y''],
                            rows = [[I64 1, Str ''Corn'', I64 5, Str ''WS1'', Str ''Station-A''],
                                    [I64 2, Str ''Wheat'', I64 10, Str ''WS2'', Str ''Station-B''],
                                    [I64 3, Str ''Corn'', I64 3, Str ''WS3'', NaN]] \<rparr>\<rparr>)"
    by (simp only: ex_enrich)
  note st2 = process_stages [of ex_env "ex_fresh\<lparr>columns_to_rename := CDict []\<rparr>"]
  from st2 have "\<forall>p1 e p2. ingest_sql_data ex_env (ex_fresh\<lparr>columns_to_rename := CDict []\<rparr>) = (None, p1) \<and>
      rename_columns p1 = (Some e, p2) \<longrightarrow>
      process ex_env (ex_fresh\<lparr>columns_to_rename := CDict []\<rparr>) = (Some e, p2)"
    by (elim conjE)
  from this [rule_format, OF conjI [OF ex_ingest_empty ex_rename_empty]]
  have b: "process ex_env (ex_fresh\<lparr>columns_to_rename := CDict []\<rparr>) =
     (Some IndexError,
      ex_fresh\<lparr>columns_to_rename := CDict [], engine := Some (), df := Some ex_raw\<rparr>)" .
  from a b show ?thesis by (rule conjI)
qed

subsection \<open>Enrich\<close>











lemma mem_map:
  "(\<forall>c. f c = l \<longleftrightarrow> c = l) \<Longrightarrow> l \<in> set (map f cs) \<longleftrightarrow> l \<in> set cs"
proof -
  assume h: "\<forall>c. f c = l \<longleftrightarrow> c = l"
  have "l \<in> f ` set cs \<longleftrightarrow> l \<in> set cs"
  proof
    assume "l \<in> f ` set cs"
    then obtain c where "c \<in> set cs" and "f c = l" by auto
    with h show "l \<in> set cs" by simp
  next
    assume "l \<in> set cs"
    moreover from h have "f l = l" by simp
    ultimately show "l \<in> f ` set cs" by force
  qed
  then show ?thesis by simp
qed

lemma station_rename_key:
  "\<forall>c. (case [''Weather_station_ID'' \<mapsto> ''Weather_station''] c of None \<Rightarrow> c | Some c' \<Rightarrow> c') =
          ''Field_ID'' \<longleftrightarrow> c = ''Field_ID''"
  by simp


lemma set_station_rename:
  "''Field_ID'' \<in> set (columns (rename [''Weather_station_ID'' \<mapsto> ''Weather_station''] t)) \<longleftrightarrow>
     ''Field_ID'' \<in> set (columns t)"
  using mem_map [OF station_rename_key, of "columns t"] by (simp add: rename_def)

lemma distinct_count_le_one: "distinct xs \<Longrightarrow> count_list xs x \<le> 1"
  by (induction xs) (auto simp: count_list_0_iff)







text \<open>
  Claim C9. Let the fetch return a table with distinct labels, as a table parsed from a
  CSV file has, and let there be a table on the object. If \<open>Field_ID\<close> is then no label
  of the table after the rename of line 99, or no label of the fetched table,
  \<open>weather_station_mapping\<close> raises \<open>KeyError\<close> for \<open>Field_ID\<close>; the rename stays on
  the object.
\<close>

theorem weather_station_mapping_key_absent:
  assumes "read_from_web_CSV env (weather_map_data p) = Inr w" and "df p = Some t"
    and "distinct (columns w)"
    and "''Field_ID'' \<notin> set (columns (rename [''Weather_station_ID'' \<mapsto> ''Weather_station''] t))
         \<or> ''Field_ID'' \<notin> set (columns w)"
  shows "weather_station_mapping env p =
           (Some (KeyError ''Field_ID''),
            p\<lparr>df := Some (rename [''Weather_station_ID'' \<mapsto> ''Weather_station''] t)\<rparr>)"
proof -
  define t1 where "t1 = rename [''Weather_station_ID'' \<mapsto> ''Weather_station''] t"
  have once: "\<not> 1 < count_list (columns w) ''Field_ID''"
    using distinct_count_le_one [OF assms(3), of "''Field_ID''"] by simp
  have "merge_left t1 w ''Field_ID'' = Inl (KeyError ''Field_ID'')"
    using assms(4) once unfolding merge_left_def t1_def by (cases "''Field_ID'' \<in> set (columns w)") simp_all
  then show ?thesis
    using assms(1,2) by (simp add: weather_station_mapping_def Let_def t1_def)
qed

text \<open>A weather table without the column \<open>Field_ID\<close>.\<close>

theorem weather_station_mapping_key_absent_witness:
  "read_from_web_CSV ex_env_nokey (weather_map_data ex_proc) =
     Inr \<lparr> columns = [''Station'', ''Weather_station''], rows = [[I64 1, Str ''Station-A'']] \<rparr> \<and>
   df ex_proc = Some ex_frame \<and>
   distinct [''Station'', ''Weather_station''] \<and>
   ''Field_ID'' \<notin> set [''Station'', ''Weather_station''] \<and>
   weather_station_mapping ex_env_nokey ex_proc =
     (Some (KeyError ''Field_ID''),
      ex_proc\<lparr>df := Some (rename [''Weather_station_ID'' \<mapsto> ''Weather_station''] ex_frame)\<rparr>)"
proof -
  let ?w = "\<lparr> columns = [''Station'', ''Weather_station''], rows = [[I64 1, Str ''Station-A'']] \<rparr>"
  have h1: "read_from_web_CSV ex_env_nokey (weather_map_data ex_proc) = Inr ?w"
    by (simp add: ex_env_nokey_def)
  have h2: "df ex_proc = Some ex_frame" by (simp add: ex_proc_def ex_fresh_def)
  have h3: "distinct (columns ?w)" by simp
  have h4: "''Field_ID'' \<notin> set (columns (rename [''Weather_station_ID'' \<mapsto> ''Weather_station''] ex_frame))
            \<or> ''Field_ID'' \<notin> set (columns ?w)"
    by simp
  from weather_station_mapping_key_absent [OF h1 h2 h3 h4] h1 h2 show ?thesis by simp
qed

end
